theory Spec2Isabelle
  imports Main
begin

section \<open>Errors\<close>

text \<open>
  Go errors as values. \<open>ErrToManyRequests\<close> is the package variable of limit.go,
  \<open>redis_Nil\<close> is go-redis' \<open>redis.Nil\<close>, \<open>ErrNew m\<close> is any other leaf error
  (\<open>errors.New(m)\<close>, a network fault of the store client) and \<open>Wrap m e\<close> an error that
  wraps \<open>e\<close> (\<open>fmt.Errorf("m: %w", e)\<close>). A nil error is \<open>None\<close> of \<open>error option\<close>.
\<close>

datatype error =
    ErrToManyRequests
  | redis_Nil
  | ErrNew string
  | Wrap string error

text \<open>\<open>errors.Is(err, target)\<close>: \<open>err\<close> or an error in its chain of wrapped errors is the target.\<close>

fun errors_Is :: "error \<Rightarrow> error \<Rightarrow> bool" where
  "errors_Is (Wrap m e) target = (if Wrap m e = target then True else errors_Is e target)"
| "errors_Is e target = (e = target)"

section \<open>Time\<close>

text \<open>
  A \<open>time.Time\<close> is the number of nanoseconds since the zero Time (the value of an unset
  \<open>time.Time\<close> field is 0), a \<open>time.Duration\<close> is a signed 64-bit count of nanoseconds.
\<close>

type_synonym time = int
type_synonym duration = int

definition Millisecond :: duration where
  "Millisecond = 1000000"

definition Second :: duration where
  "Second = 1000000000"

definition maxDuration :: duration where
  "maxDuration = 2 ^ 63 - 1"

definition minDuration :: duration where
  "minDuration = - (2 ^ 63)"

text \<open>Arithmetic on \<open>int64\<close> wraps around: the product of two Durations is reduced by this.\<close>

definition wrap64 :: "int \<Rightarrow> int" where
  "wrap64 x = (x + 2 ^ 63) mod 2 ^ 64 - 2 ^ 63"

text \<open>\<open>t.Sub(u)\<close>: the Duration \<open>t - u\<close>, saturating at the largest and smallest Duration.\<close>

definition Sub :: "time \<Rightarrow> time \<Rightarrow> duration" where
  "Sub t u =
     (if t - u > maxDuration then maxDuration
      else if t - u < minDuration then minDuration
      else t - u)"

text \<open>\<open>t.Add(d)\<close>.\<close>

definition Add :: "time \<Rightarrow> duration \<Rightarrow> time" where
  "Add t d = t + d"

text \<open>
  \<open>int(d.Seconds())\<close>: \<open>Seconds\<close> is the float64 \<open>d / 1e9\<close> and the conversion to \<open>int\<close>
  truncates towards zero. The float64 value is the whole seconds plus the fraction
  \<open>(d % 1e9) / 1e9\<close>; the truncation below is exact whenever that sum does not round up
  to the next whole number, which holds for every Duration shorter than \<open>2^24\<close> seconds
  (about 194 days) and for every whole number of seconds.
\<close>

definition Seconds_int :: "duration \<Rightarrow> int" where
  "Seconds_int d = sgn d * (\<bar>d\<bar> div Second)"

section \<open>strconv.Itoa\<close>

definition digit :: "nat \<Rightarrow> char" where
  "digit d = ''0123456789'' ! d"

function FormatUint :: "nat \<Rightarrow> string" where
  "FormatUint n = (if n < 10 then [digit n] else FormatUint (n div 10) @ [digit (n mod 10)])"
  by pat_completeness auto
termination
  by (relation "measure id") auto

declare FormatUint.simps [simp del]

definition Itoa :: "int \<Rightarrow> string" where
  "Itoa i = (if i < 0 then CHR ''-'' # FormatUint (nat (- i)) else FormatUint (nat i))"

section \<open>The store client\<close>

text \<open>
  The go-redis client is not part of the sources: the commands that redis.go sends are
  taken as parameters, each a function on the state \<open>'s\<close> of the world outside the
  Bucket (the Redis server, the network, the clock). A command returns its reply or an
  error, and the world after it.
  \<^item> \<open>Ping\<close>: \<open>rdb.Ping().Result()\<close>, the error only;
  \<^item> \<open>WatchCmd k\<close>: the \<open>WATCH k\<close> that \<open>rdb.Watch(fn, k)\<close> sends before it runs \<open>fn\<close>;
  \<^item> \<open>Get k\<close>: \<open>tx.Get(k).Int()\<close>, with \<open>Inl redis_Nil\<close> when the key is absent;
  \<^item> \<open>SetCmd k v d\<close>: \<open>rdb.Set(k, v, d)\<close>, the error only;
  \<^item> \<open>IncrBy k a\<close>: \<open>tx.IncrBy(k, a).Result()\<close>;
  \<^item> \<open>PTTL k\<close>: \<open>rdb.Do("PTTL", k).Int()\<close>.
  Where Go returns a value together with a non-nil error the value is the zero value
  (\<open>val_of\<close>).
\<close>

record 's client =
  Ping :: "'s \<Rightarrow> error option \<times> 's"
  WatchCmd :: "string \<Rightarrow> 's \<Rightarrow> error option \<times> 's"
  Get :: "string \<Rightarrow> 's \<Rightarrow> (error + int) \<times> 's"
  SetCmd :: "string \<Rightarrow> int \<Rightarrow> duration \<Rightarrow> 's \<Rightarrow> error option \<times> 's"
  IncrBy :: "string \<Rightarrow> int \<Rightarrow> 's \<Rightarrow> (error + int) \<times> 's"
  PTTL :: "string \<Rightarrow> 's \<Rightarrow> (error + int) \<times> 's"

definition val_of :: "error + int \<Rightarrow> int" where
  "val_of r = (case r of Inl e \<Rightarrow> 0 | Inr v \<Rightarrow> v)"

definition err_of :: "error + int \<Rightarrow> error option" where
  "err_of r = (case r of Inl e \<Rightarrow> Some e | Inr v \<Rightarrow> None)"

text \<open>
  Modelled from the spec: \<open>rdb.Watch(fn, key)\<close> of go-redis, the OptimisticTransaction of
  section 4.1, for one caller at a time: it executes the body under a watch on the key.
  When the watch itself cannot be placed the body does not run and the error is
  returned; otherwise the outcome is the body's. \<open>a\<close> is the value the closure
  captures and updates (the Bucket).
\<close>

definition Watch ::
  "'s client \<Rightarrow> ('a \<Rightarrow> 's \<Rightarrow> error option \<times> 'a \<times> 's) \<Rightarrow> string \<Rightarrow> 'a \<Rightarrow> 's
     \<Rightarrow> error option \<times> 'a \<times> 's" where
  "Watch c fn k a s =
     (case WatchCmd c k s of
        (Some e, s1) \<Rightarrow> (Some e, a, s1)
      | (None, s1) \<Rightarrow> fn a s1)"

section \<open>redis.Bucket\<close>

record State =
  Capacity :: int
  Space :: int
  Reset :: time

record 's Bucket =
  rdb :: "'s client"
  key :: string
  capacity :: int
  space :: int
  reset :: time
  rate :: duration

text \<open>\<open>time.Now()\<close> is a parameter \<open>now\<close>, reading the clock of the world.\<close>

text \<open>The body of the transaction of \<open>drain\<close> (redis.go, lines 76 to 92).\<close>

definition drain_tx :: "('s \<Rightarrow> time) \<Rightarrow> 's Bucket \<Rightarrow> 's \<Rightarrow> error option \<times> 's Bucket \<times> 's" where
  "drain_tx now b s =
     (case PTTL (rdb b) (key b) s of (r, s1) \<Rightarrow>
        (let pttl = val_of r; err = err_of r in
         if err \<noteq> None \<and> err \<noteq> Some redis_Nil then (err, b, s1)
         else if pttl < 1 \<or> err = Some redis_Nil then
           (case SetCmd (rdb b) (key b) 0 (rate b) s1 of
              (Some e, s2) \<Rightarrow> (Some e, b, s2)
            | (None, s2) \<Rightarrow>
                (None, b\<lparr>reset := Add (now s2) (wrap64 (pttl * Millisecond))\<rparr>, s2))
         else (None, b\<lparr>reset := Add (now s1) (wrap64 (pttl * Millisecond))\<rparr>, s1)))"

definition drain :: "('s \<Rightarrow> time) \<Rightarrow> 's Bucket \<Rightarrow> 's \<Rightarrow> error option \<times> 's Bucket \<times> 's" where
  "drain now b s = Watch (rdb b) (drain_tx now) (key b) b s"

definition state :: "'s Bucket \<Rightarrow> State" where
  "state b = \<lparr>Capacity = capacity b, Space = space b, Reset = reset b\<rparr>"

text \<open>
  The body of the transaction of \<open>Consume\<close>, in the order of the source:
  \<open>Consume_get\<close> is lines 35 to 43 (the read of the counter; an absent key is set to 0
  with the window as its time to live and read as 0; the outcome of that \<open>Set\<close> is
  dropped), \<open>Consume_incr\<close> lines 49 to 53 (the increment; the error assigned from
  \<open>TxPipelined\<close> is never read, and \<open>count\<close> stays 0 when \<open>IncrBy\<close> fails) and
  \<open>Consume_tx\<close> the whole closure. Every call of \<open>drain\<close> drops what it returns.
\<close>

definition Consume_get :: "'s Bucket \<Rightarrow> 's \<Rightarrow> (error + int) \<times> 's" where
  "Consume_get b s =
     (case Get (rdb b) (key b) s of
        (Inr n, s1) \<Rightarrow> (Inr n, s1)
      | (Inl e, s1) \<Rightarrow>
          if e = redis_Nil then (Inr 0, snd (SetCmd (rdb b) (key b) 0 (rate b) s1))
          else (Inl e, s1))"

definition Consume_incr :: "'s Bucket \<Rightarrow> int \<Rightarrow> 's \<Rightarrow> int \<times> 's" where
  "Consume_incr b amt s = (case IncrBy (rdb b) (key b) amt s of (r, s1) \<Rightarrow> (val_of r, s1))"

definition Consume_tx ::
  "('s \<Rightarrow> time) \<Rightarrow> int \<Rightarrow> 's Bucket \<Rightarrow> 's \<Rightarrow> error option \<times> 's Bucket \<times> 's" where
  "Consume_tx now amt b s =
     (case Consume_get b s of
        (Inl e, s1) \<Rightarrow> (Some e, b, s1)
      | (Inr n, s1) \<Rightarrow>
          if n \<ge> capacity b then
            (case drain now b s1 of (_, b1, s2) \<Rightarrow> (Some ErrToManyRequests, b1, s2))
          else
            (case Consume_incr b amt s1 of (count, s2) \<Rightarrow>
               if count > capacity b then
                 (case drain now b s2 of (_, b1, s3) \<Rightarrow> (Some ErrToManyRequests, b1, s3))
               else
                 (case drain now (b\<lparr>space := capacity b - count\<rparr>) s2 of
                    (_, b1, s3) \<Rightarrow> (None, b1, s3))))"

text \<open>\<open>Consume\<close> returns the state of the Bucket after the transaction, and its error.\<close>

definition Consume ::
  "('s \<Rightarrow> time) \<Rightarrow> 's Bucket \<Rightarrow> int \<Rightarrow> 's \<Rightarrow> (State \<times> error option) \<times> 's Bucket \<times> 's" where
  "Consume now b amt s =
     (case Watch (rdb b) (Consume_tx now amt) (key b) b s of
        (err, b1, s1) \<Rightarrow> ((state b1, err), b1, s1))"

text \<open>
  \<open>NewBucket\<close>. \<open>redis.NewClient\<close> is a parameter, from the options to the client. On an
  error Go returns an empty \<open>&Bucket{}\<close> beside it; \<open>Inl e\<close> stands for that pair.
\<close>

record Options =
  Addr :: string
  Password :: string
  DB :: int

record Config =
  AppKey :: string
  RedisAddr :: string
  RedisPwd :: string
  RedisDB :: int
  RequestLimit :: int
  LimitDuration :: duration

definition NewBucket ::
  "(Options \<Rightarrow> 's client) \<Rightarrow> Config \<Rightarrow> 's \<Rightarrow> (error + 's Bucket) \<times> 's" where
  "NewBucket NewClient cfg s =
     (let c = NewClient \<lparr>Addr = RedisAddr cfg, Password = RedisPwd cfg, DB = RedisDB cfg\<rparr> in
      case Ping c s of
        (Some e, s1) \<Rightarrow> (Inl e, s1)
      | (None, s1) \<Rightarrow>
          if AppKey cfg = '''' then (Inl (ErrNew ''please provide appkey''), s1)
          else (Inr \<lparr>rdb = c, key = AppKey cfg, capacity = RequestLimit cfg, space = 0,
                     reset = 0, rate = LimitDuration cfg\<rparr>, s1))"

section \<open>limit.go\<close>

definition xRateLimit :: string where
  "xRateLimit = ''X-Rate-Limit-Limit''"

definition xRateLimitRemaining :: string where
  "xRateLimitRemaining = ''X-Rate-Limit-Remaining''"

definition xRateLimitRest :: string where
  "xRateLimitRest = ''X-Rate-Limit-Limit''"

text \<open>
  An \<open>http.Header\<close> maps a header name to its values; \<open>h.Set(k, v)\<close> replaces the values
  under \<open>k\<close> by the single value \<open>v\<close> (the three names above are in canonical form
  already, so \<open>Set\<close> stores them as written). Of an \<open>http.Response\<close> the model keeps the
  fields the transport reads or writes; a nil \<open>Header\<close> map and a nil \<open>Body\<close> are \<open>None\<close>.
\<close>

type_synonym Header = "string \<rightharpoonup> string list"

definition Header_Set :: "Header \<Rightarrow> string \<Rightarrow> string \<Rightarrow> Header" where
  "Header_Set h k v = h(k \<mapsto> [v])"

record Response =
  Status :: string
  StatusCode :: int
  Header :: "Header option"
  Body :: "string option"

text \<open>
  \<open>stamp\<close> is the three \<open>Set\<close> calls of \<open>setXRateHeaders\<close> on a header map, in the order
  of the source; \<open>setXRateHeaders\<close> applies them to the response. Writing to the nil map
  of a response panics: the result is \<open>None\<close> then.
\<close>

definition stamp :: "State \<Rightarrow> time \<Rightarrow> Header \<Rightarrow> Header" where
  "stamp s now h =
     (let h1 = Header_Set h xRateLimit (Itoa (Capacity s));
          h2 = Header_Set h1 xRateLimitRemaining (Itoa (Space s));
          remaining = Seconds_int (Sub now (Reset s))
      in Header_Set h2 xRateLimitRest (Itoa remaining))"

definition setXRateHeaders :: "State \<Rightarrow> time \<Rightarrow> Response \<Rightarrow> Response option" where
  "setXRateHeaders s now r =
     (case Header r of
        None \<Rightarrow> None
      | Some h \<Rightarrow> Some (r\<lparr>Header := Some (stamp s now h)\<rparr>))"

text \<open>
  The \<open>Bucket\<close> interface is its method \<open>Consume\<close>, an \<open>http.RoundTripper\<close> its method
  \<open>RoundTrip\<close>; both act on the world \<open>'w\<close>. A nil interface value is \<open>None\<close>.
\<close>

type_synonym 'w limit_Bucket = "int \<Rightarrow> 'w \<Rightarrow> (State \<times> error option) \<times> 'w"

type_synonym ('q, 'w) RoundTripper = "'q \<Rightarrow> 'w \<Rightarrow> (Response option \<times> error option) \<times> 'w"

record ('q, 'w) Transport =
  Transport :: "('q, 'w) RoundTripper option"
  Bucket :: "'w limit_Bucket option"

definition NewTransport :: "'w limit_Bucket \<Rightarrow> ('q, 'w) Transport" where
  "NewTransport b = \<lparr>Transport = None, Bucket = Some b\<rparr>"

text \<open>
  What a call of \<open>RoundTrip\<close> does: it returns a response and an error (either may be
  nil), or it panics (a nil \<open>Bucket\<close>, a nil response without an error from the wrapped
  transport, a response whose header map is nil).
\<close>

datatype outcome = Return "Response option" "error option" | Panic

text \<open>
  \<open>Transport.RoundTrip\<close>. \<open>http.DefaultTransport\<close> and \<open>time.Now\<close> are the parameters
  \<open>DefaultTransport\<close> and \<open>now\<close>.
\<close>

definition RoundTrip ::
  "('q, 'w) RoundTripper \<Rightarrow> ('w \<Rightarrow> time) \<Rightarrow> ('q, 'w) Transport \<Rightarrow> 'q \<Rightarrow> 'w \<Rightarrow> outcome \<times> 'w" where
  "RoundTrip DefaultTransport now t req w =
     (let transport = (case Transport t of None \<Rightarrow> DefaultTransport | Some tr \<Rightarrow> tr) in
      case Bucket t of
        None \<Rightarrow> (Panic, w)
      | Some bucket \<Rightarrow>
          (case bucket 1 w of
             ((st, Some err), w1) \<Rightarrow>
               if errors_Is err ErrToManyRequests then
                 (case setXRateHeaders st (now w1)
                         \<lparr>Status = ''Too Many Requests'', StatusCode = 429,
                          Header = Some Map.empty, Body = None\<rparr> of
                    None \<Rightarrow> (Panic, w1)
                  | Some resp \<Rightarrow> (Return (Some resp) None, w1))
               else (Return None (Some err), w1)
           | ((st, None), w1) \<Rightarrow>
               (case transport req w1 of
                  ((_, Some err), w2) \<Rightarrow> (Return None (Some err), w2)
                | ((None, None), w2) \<Rightarrow> (Panic, w2)
                | ((Some resp, None), w2) \<Rightarrow>
                    (case setXRateHeaders st (now w2) resp of
                       None \<Rightarrow> (Panic, w2)
                     | Some resp' \<Rightarrow> (Return (Some resp') None, w2)))))"

section \<open>A reference store\<close>

text \<open>
  Modelled from the spec: the Store capability of section 4.1 (ReadInt, SetWithTTL,
  IncrementBy, RemainingTTL), as the Redis server answers the commands of redis.go; the
  server is not part of the sources. The store keeps, for each key, an integer and the
  time at which it expires, if any; \<open>clock\<close> is the time in milliseconds, and a key is
  gone once the clock has reached its expiry. While \<open>down\<close> is set every command fails.
  \<^item> \<open>GET\<close> of a key that is absent answers nil;
  \<^item> \<open>SET k v\<close> with a positive expiration \<open>d\<close> stores \<open>v\<close> with \<open>d\<close> in milliseconds
    (at least one) as the time to live, and with no expiry otherwise;
  \<^item> \<open>INCRBY\<close> adds to the value (0 when absent) and keeps the expiry;
  \<^item> \<open>PTTL\<close> answers the milliseconds left, -1 for a key without expiry, -2 for an
    absent key.
\<close>

record redis =
  clock :: int
  down :: bool
  entries :: "string \<rightharpoonup> int \<times> int option"

definition unreachable :: error where
  "unreachable = ErrNew ''dial tcp: connection refused''"

definition live :: "redis \<Rightarrow> string \<Rightarrow> (int \<times> int option) option" where
  "live r k =
     (case entries r k of
        None \<Rightarrow> None
      | Some (v, None) \<Rightarrow> Some (v, None)
      | Some (v, Some t) \<Rightarrow> if clock r < t then Some (v, Some t) else None)"

definition ttl_ms :: "duration \<Rightarrow> int" where
  "ttl_ms d = max 1 (d div Millisecond)"

definition redis_Ping :: "redis \<Rightarrow> error option \<times> redis" where
  "redis_Ping r = (if down r then Some unreachable else None, r)"

definition redis_Watch :: "string \<Rightarrow> redis \<Rightarrow> error option \<times> redis" where
  "redis_Watch k r = (if down r then Some unreachable else None, r)"

definition redis_Get :: "string \<Rightarrow> redis \<Rightarrow> (error + int) \<times> redis" where
  "redis_Get k r =
     (if down r then (Inl unreachable, r)
      else case live r k of
             None \<Rightarrow> (Inl redis_Nil, r)
           | Some (v, ex) \<Rightarrow> (Inr v, r))"

definition redis_Set :: "string \<Rightarrow> int \<Rightarrow> duration \<Rightarrow> redis \<Rightarrow> error option \<times> redis" where
  "redis_Set k v d r =
     (if down r then (Some unreachable, r)
      else (None, r\<lparr>entries := (entries r)
              (k \<mapsto> (v, if d > 0 then Some (clock r + ttl_ms d) else None))\<rparr>))"

definition redis_IncrBy :: "string \<Rightarrow> int \<Rightarrow> redis \<Rightarrow> (error + int) \<times> redis" where
  "redis_IncrBy k a r =
     (if down r then (Inl unreachable, r)
      else case live r k of
             None \<Rightarrow> (Inr a, r\<lparr>entries := (entries r)(k \<mapsto> (a, None))\<rparr>)
           | Some (v, ex) \<Rightarrow> (Inr (v + a), r\<lparr>entries := (entries r)(k \<mapsto> (v + a, ex))\<rparr>))"

definition redis_PTTL :: "string \<Rightarrow> redis \<Rightarrow> (error + int) \<times> redis" where
  "redis_PTTL k r =
     (if down r then (Inl unreachable, r)
      else case live r k of
             None \<Rightarrow> (Inr (- 2), r)
           | Some (v, None) \<Rightarrow> (Inr (- 1), r)
           | Some (v, Some t) \<Rightarrow> (Inr (t - clock r), r))"

definition redis_client :: "redis client" where
  "redis_client =
     \<lparr>Ping = redis_Ping, WatchCmd = redis_Watch, Get = redis_Get, SetCmd = redis_Set,
      IncrBy = redis_IncrBy, PTTL = redis_PTTL\<rparr>"

definition redis_NewClient :: "Options \<Rightarrow> redis client" where
  "redis_NewClient opts = redis_client"

text \<open>The process reads the same clock: \<open>time.Now()\<close> in nanoseconds.\<close>

definition redis_now :: "redis \<Rightarrow> time" where
  "redis_now r = clock r * Millisecond"

text \<open>The store at time \<open>t\<close> with no key, and the passing of \<open>d\<close> milliseconds.\<close>

definition fresh :: "int \<Rightarrow> redis" where
  "fresh t = \<lparr>clock = t, down = False, entries = Map.empty\<rparr>"

definition sleep :: "int \<Rightarrow> redis \<Rightarrow> redis" where
  "sleep d r = r\<lparr>clock := clock r + d\<rparr>"

section \<open>The decision of Consume, and runs of calls\<close>

text \<open>
  The read, compare and increment steps of \<open>Consume\<close> alone: which error, if any, the
  transaction of \<open>Consume\<close> decides on from the watch, the read of the counter, the
  comparison with the capacity, the increment and the overflow check. No step of
  \<open>drain\<close> takes part.
\<close>

definition Consume_outcome :: "'s Bucket \<Rightarrow> int \<Rightarrow> 's \<Rightarrow> error option" where
  "Consume_outcome b amt s =
     (case WatchCmd (rdb b) (key b) s of
        (Some e, s1) \<Rightarrow> Some e
      | (None, s1) \<Rightarrow>
          (case Consume_get b s1 of
             (Inl e, s2) \<Rightarrow> Some e
           | (Inr n, s2) \<Rightarrow>
               if n \<ge> capacity b then Some ErrToManyRequests
               else if fst (Consume_incr b amt s2) > capacity b then Some ErrToManyRequests
               else None))"

text \<open>
  A run of sequential \<open>Consume(1)\<close> calls of one Bucket on the reference store; before
  each call the given number of milliseconds passes. The results are listed in order.
\<close>

fun Consume_seq :: "redis Bucket \<Rightarrow> redis \<Rightarrow> int list \<Rightarrow> (State \<times> error option) list" where
  "Consume_seq b s [] = []"
| "Consume_seq b s (d # ds) =
     (case Consume redis_now b 1 (sleep d s) of
        (r, b1, s1) \<Rightarrow> r # Consume_seq b1 s1 ds)"

text \<open>The configuration of redis\_test.go (\<open>defaultTestCfg\<close>).\<close>

definition defaultTestCfg :: Config where
  "defaultTestCfg =
     \<lparr>AppKey = ''test-app-key'', RedisAddr = ''localhost:6379'', RedisPwd = [], RedisDB = 0,
      RequestLimit = 2, LimitDuration = Second\<rparr>"

text \<open>
  Stand-ins for the collaborators of the transport in the examples below. The world is
  the number of requests that reached the wrapped transport: \<open>counting_transport\<close>
  answers 200 and counts the request; \<open>full_bucket st\<close> rejects every call with
  \<open>ErrToManyRequests\<close> and the state \<open>st\<close>; \<open>broken_bucket st e\<close> fails with \<open>e\<close>;
  \<open>open_bucket st\<close> accepts every call with the state \<open>st\<close>; \<open>failing_transport e\<close>
  counts the request and fails with \<open>e\<close>.
\<close>

definition counting_transport :: "(string, nat) RoundTripper" where
  "counting_transport req w =
     ((Some \<lparr>Status = ''200 OK'', StatusCode = 200, Header = Some Map.empty, Body = Some ''OK''\<rparr>,
       None), Suc w)"

definition full_bucket :: "State \<Rightarrow> nat limit_Bucket" where
  "full_bucket st amt w = ((st, Some ErrToManyRequests), w)"

definition broken_bucket :: "State \<Rightarrow> error \<Rightarrow> nat limit_Bucket" where
  "broken_bucket st e amt w = ((st, Some e), w)"

definition open_bucket :: "State \<Rightarrow> nat limit_Bucket" where
  "open_bucket st amt w = ((st, None), w)"

definition failing_transport :: "error \<Rightarrow> (string, nat) RoundTripper" where
  "failing_transport e req w = ((None, Some e), Suc w)"

text \<open>
  Values for the examples on the reference store: \<open>test_bucket c\<close> is the Bucket that
  \<open>NewBucket\<close> makes from \<open>defaultTestCfg\<close> with the capacity \<open>c\<close>; \<open>stored v t\<close> is
  the store at time 0 that holds the counter \<open>v\<close>, expiring at \<open>t\<close>, under the key of the
  test; \<open>no_pttl\<close> is the reference client with a \<open>PTTL\<close> that always fails.
\<close>

definition test_bucket :: "int \<Rightarrow> redis Bucket" where
  "test_bucket c =
     \<lparr>rdb = redis_client, key = ''test-app-key'', capacity = c, space = 0, reset = 0,
      rate = Second\<rparr>"

definition stored :: "int \<Rightarrow> int \<Rightarrow> redis" where
  "stored v t = \<lparr>clock = 0, down = False, entries = [''test-app-key'' \<mapsto> (v, Some t)]\<rparr>"

definition no_pttl :: "redis client" where
  "no_pttl = redis_client\<lparr>PTTL := \<lambda>k r. (Inl unreachable, r)\<rparr>"

section \<open>Properties of the transport\<close>

lemma Itoa_small: "Itoa 0 = ''0''" "Itoa (- 1) = ''-1''" "Itoa 1 = ''1''" "Itoa 2 = ''2''"
  by (simp_all add: Itoa_def FormatUint.simps digit_def)

lemma stamp_apply:
  "stamp st now h k =
     (if k = ''X-Rate-Limit-Limit'' then Some [Itoa (Seconds_int (Sub now (Reset st)))]
      else if k = ''X-Rate-Limit-Remaining'' then Some [Itoa (Space st)]
      else h k)"
  by (simp add: stamp_def Header_Set_def xRateLimit_def xRateLimitRemaining_def xRateLimitRest_def)

lemma Seconds_int_one_second_ahead: "Seconds_int (Sub (4 * Second) (5 * Second)) = - 1"
  by (simp add: Seconds_int_def Sub_def Second_def maxDuration_def minDuration_def)

text \<open>
  The rejection path of \<open>RoundTrip\<close> in general: when the Bucket answers with an error
  that is \<open>ErrToManyRequests\<close>, the call returns a nil error and a fresh response with
  status 429, no body and the headers that \<open>setXRateHeaders\<close> writes from the returned
  state on an empty map; the world is the one the Bucket left, so the wrapped transport
  was not called.
\<close>

lemma RoundTrip_rejected:
  assumes "Bucket t = Some bucket" and "bucket 1 w = ((st, Some err), w1)"
    and "errors_Is err ErrToManyRequests"
  shows "RoundTrip dflt now t req w =
    (Return (Some \<lparr>Status = ''Too Many Requests'', StatusCode = 429,
               Header = Some (stamp st (now w1) Map.empty), Body = None\<rparr>) None, w1)"
  using assms by (simp add: RoundTrip_def setXRateHeaders_def)

text \<open>
  C3. A request that the Bucket rejects with \<open>ErrToManyRequests\<close> gets a synthesized
  response with status 429, no body and a nil error, and the wrapped transport is not
  called (its counter stays 0). The response does not carry three rate-limit headers,
  though: for the state with capacity 2, space 0 and a reset one second ahead its header
  map has two names only. The capacity 2 is nowhere in it, and under the capacity's name
  stands the value written for the reset.
\<close>

theorem RoundTrip_rejected_two_headers:
  "RoundTrip counting_transport (\<lambda>w. 4 * Second)
     \<lparr>Transport = None, Bucket = Some (full_bucket \<lparr>Capacity = 2, Space = 0, Reset = 5 * Second\<rparr>)\<rparr>
     ''GET /'' 0
   = (Return (Some \<lparr>Status = ''Too Many Requests'', StatusCode = 429,
        Header = Some [''X-Rate-Limit-Remaining'' \<mapsto> [''0''], ''X-Rate-Limit-Limit'' \<mapsto> [''-1'']],
        Body = None\<rparr>) None, 0)"
  by (simp add: RoundTrip_def full_bucket_def setXRateHeaders_def stamp_def Header_Set_def
       Seconds_int_one_second_ahead Itoa_small xRateLimit_def xRateLimitRemaining_def
       xRateLimitRest_def fun_upd_twist)

text \<open>
  C4. When the Bucket fails with an error that is not \<open>ErrToManyRequests\<close>, \<open>RoundTrip\<close>
  returns that very error and a nil response. The world it returns is the one the Bucket
  left, whatever the wrapped transport and the default transport are: neither was called.
\<close>

theorem RoundTrip_store_error:
  assumes "Bucket t = Some bucket" and "bucket 1 w = ((st, Some err), w1)"
    and "\<not> errors_Is err ErrToManyRequests"
  shows "RoundTrip dflt now t req w = (Return None (Some err), w1)"
  using assms by (simp add: RoundTrip_def)

theorem RoundTrip_store_error_witness:
  "\<not> errors_Is (ErrNew ''EOF'') ErrToManyRequests \<and>
   RoundTrip counting_transport (\<lambda>w. 0)
     \<lparr>Transport = Some counting_transport,
      Bucket = Some (broken_bucket \<lparr>Capacity = 2, Space = 1, Reset = 0\<rparr> (ErrNew ''EOF''))\<rparr>
     ''GET /'' 0 = (Return None (Some (ErrNew ''EOF'')), 0)"
  using RoundTrip_store_error [of
      "\<lparr>Transport = Some counting_transport,
        Bucket = Some (broken_bucket \<lparr>Capacity = 2, Space = 1, Reset = 0\<rparr> (ErrNew ''EOF''))\<rparr>"
      "broken_bucket \<lparr>Capacity = 2, Space = 1, Reset = 0\<rparr> (ErrNew ''EOF'')" 0
      "\<lparr>Capacity = 2, Space = 1, Reset = 0\<rparr>" "ErrNew ''EOF''" 0 counting_transport
      "\<lambda>w. 0" "''GET /''"]
  by (simp add: broken_bucket_def)

text \<open>
  For every reset time that is not in the past, the value computed for the reset header
  is zero or negative.
\<close>

lemma reset_value_nonpositive: "now \<le> r \<Longrightarrow> Seconds_int (Sub now r) \<le> 0"
  by (auto simp: Seconds_int_def Sub_def Second_def maxDuration_def minDuration_def sgn_if
       intro!: pos_imp_zdiv_nonneg_iff [THEN iffD2])

text \<open>
  C6. The value written under the reset header is the whole seconds of \<open>now - Reset\<close>,
  not of \<open>Reset - now\<close>: for a reset one second ahead of now the header reads -1, where
  the seconds from now until the reset are 1.
\<close>

theorem reset_header_negative:
  "setXRateHeaders \<lparr>Capacity = 2, Space = 0, Reset = 5 * Second\<rparr> (4 * Second)
     \<lparr>Status = ''Too Many Requests'', StatusCode = 429, Header = Some Map.empty, Body = None\<rparr>
   = Some \<lparr>Status = ''Too Many Requests'', StatusCode = 429,
       Header = Some [xRateLimitRemaining \<mapsto> [''0''], xRateLimitRest \<mapsto> [''-1'']], Body = None\<rparr>"
  by (simp add: setXRateHeaders_def stamp_def Header_Set_def Seconds_int_one_second_ahead
       Itoa_small xRateLimit_def xRateLimitRemaining_def xRateLimitRest_def fun_upd_twist)

text \<open>
  C7. The name of the reset header is the name of the capacity header. Whatever the
  state, a stamped empty header map has two names, and under the capacity's name stands
  the value of the reset: the capacity written first is overwritten.
\<close>

theorem header_names_collide:
  "xRateLimitRest = xRateLimit \<and>
   dom (stamp st now Map.empty) = {''X-Rate-Limit-Limit'', ''X-Rate-Limit-Remaining''} \<and>
   stamp st now h xRateLimit = Some [Itoa (Seconds_int (Sub now (Reset st)))]"
  by (auto simp: stamp_apply dom_def xRateLimit_def xRateLimitRest_def split: if_splits)

text \<open>
  C10. A Transport whose \<open>Transport\<close> field is nil behaves, on every request and in every
  world, as the same Transport with \<open>http.DefaultTransport\<close> in that field: the Bucket is
  consulted in the same way. With the field nil, a request that the Bucket accepts is
  handed unchanged to the default transport in the world the Bucket left: when the
  default transport answers with a response that has a header map, \<open>RoundTrip\<close> returns
  that response, stamped from the state of the Bucket, and a nil error; when it answers
  with an error, \<open>RoundTrip\<close> returns that error. The world returned is the one the
  default transport left.
\<close>

theorem RoundTrip_nil_Transport:
  "RoundTrip dflt now (t\<lparr>Transport := None\<rparr>) req w =
     RoundTrip dflt now (t\<lparr>Transport := Some dflt\<rparr>) req w \<and>
   (Bucket t = Some bucket \<and> bucket 1 w = ((st, None), w1) \<and>
    dflt req w1 = ((Some resp, None), w2) \<and> Header resp = Some h \<longrightarrow>
      RoundTrip dflt now (t\<lparr>Transport := None\<rparr>) req w =
        (Return (Some (resp\<lparr>Header := Some (stamp st (now w2) h)\<rparr>)) None, w2)) \<and>
   (Bucket t = Some bucket \<and> bucket 1 w = ((st, None), w1) \<and>
    dflt req w1 = ((r, Some err), w2) \<longrightarrow>
      RoundTrip dflt now (t\<lparr>Transport := None\<rparr>) req w = (Return None (Some err), w2))"
  by (auto simp: RoundTrip_def setXRateHeaders_def split: option.splits)

text \<open>
  Both accept paths at a concrete input: the default transport is called once (the
  counter goes from 0 to 1), and its response comes back stamped, or its error comes
  back.
\<close>

theorem RoundTrip_nil_Transport_witness:
  "open_bucket \<lparr>Capacity = 2, Space = 1, Reset = 5 * Second\<rparr> 1 0
     = ((\<lparr>Capacity = 2, Space = 1, Reset = 5 * Second\<rparr>, None), 0) \<and>
   counting_transport ''GET /'' 0
     = ((Some \<lparr>Status = ''200 OK'', StatusCode = 200, Header = Some Map.empty,
               Body = Some ''OK''\<rparr>, None), 1) \<and>
   RoundTrip counting_transport (\<lambda>w. 4 * Second)
     \<lparr>Transport = None, Bucket = Some (open_bucket \<lparr>Capacity = 2, Space = 1, Reset = 5 * Second\<rparr>)\<rparr>
     ''GET /'' 0
   = (Return (Some \<lparr>Status = ''200 OK'', StatusCode = 200,
        Header = Some [''X-Rate-Limit-Remaining'' \<mapsto> [''1''], ''X-Rate-Limit-Limit'' \<mapsto> [''-1'']],
        Body = Some ''OK''\<rparr>) None, 1) \<and>
   failing_transport (ErrNew ''EOF'') ''GET /'' 0 = ((None, Some (ErrNew ''EOF'')), 1) \<and>
   RoundTrip (failing_transport (ErrNew ''EOF'')) (\<lambda>w. 4 * Second)
     \<lparr>Transport = None, Bucket = Some (open_bucket \<lparr>Capacity = 2, Space = 1, Reset = 5 * Second\<rparr>)\<rparr>
     ''GET /'' 0
   = (Return None (Some (ErrNew ''EOF'')), 1)"
proof -
  let ?st = "\<lparr>Capacity = 2, Space = 1, Reset = 5 * Second\<rparr>"
  let ?t = "\<lparr>Transport = None, Bucket = Some (open_bucket ?st)\<rparr> :: (string, nat) Transport"
  let ?resp = "\<lparr>Status = ''200 OK'', StatusCode = 200, Header = Some Map.empty, Body = Some ''OK''\<rparr>"
  have b: "open_bucket ?st 1 0 = ((?st, None), 0)"
    by (simp add: open_bucket_def)
  have c: "counting_transport ''GET /'' 0 = ((Some ?resp, None), 1)"
    by (simp add: counting_transport_def)
  have f: "failing_transport (ErrNew ''EOF'') ''GET /'' 0 = ((None, Some (ErrNew ''EOF'')), 1)"
    by (simp add: failing_transport_def)
  have s: "stamp ?st (4 * Second) Map.empty
             = [''X-Rate-Limit-Remaining'' \<mapsto> [''1''], ''X-Rate-Limit-Limit'' \<mapsto> [''-1'']]"
    by (simp add: stamp_def Header_Set_def Seconds_int_one_second_ahead Itoa_small xRateLimit_def
         xRateLimitRemaining_def xRateLimitRest_def fun_upd_twist)
  show ?thesis
    using RoundTrip_nil_Transport [of counting_transport "\<lambda>w. 4 * Second" ?t "''GET /''" 0
        "open_bucket ?st" ?st 0 ?resp 1 Map.empty None "ErrNew ''EOF''", THEN conjunct2]
      RoundTrip_nil_Transport [of "failing_transport (ErrNew ''EOF'')" "\<lambda>w. 4 * Second" ?t
        "''GET /''" 0 "open_bucket ?st" ?st 0 ?resp 1 Map.empty None "ErrNew ''EOF''",
        THEN conjunct2]
      b c f s
    by simp
qed

section \<open>Properties of NewBucket\<close>

text \<open>
  C8, as the claim states it, fails: with a reachable store and a key, \<open>NewBucket\<close>
  returns a Bucket for the capacity -1 and the window 0. Neither is checked.
\<close>

theorem NewBucket_no_validation:
  "NewBucket redis_NewClient (defaultTestCfg\<lparr>RequestLimit := - 1, LimitDuration := 0\<rparr>) (fresh 0)
     = (Inr \<lparr>rdb = redis_client, key = ''test-app-key'', capacity = - 1, space = 0, reset = 0,
             rate = 0\<rparr>, fresh 0)"
  by (simp add: NewBucket_def redis_NewClient_def redis_client_def redis_Ping_def fresh_def
      defaultTestCfg_def)

text \<open>
  C8, amended. \<open>NewBucket\<close> pings the store first: when the ping fails it returns the
  ping's error, whatever the configuration. When the ping succeeds and the key is empty
  it returns the error "please provide appkey". When the ping succeeds and the key is not
  empty it returns a Bucket on that client with the configured key, capacity and window,
  whatever their values, with no space cached and the zero reset time.
\<close>

theorem NewBucket_checks:
  assumes "c = NewClient \<lparr>Addr = RedisAddr cfg, Password = RedisPwd cfg, DB = RedisDB cfg\<rparr>"
  shows "(\<forall>e s1. Ping c s = (Some e, s1) \<longrightarrow> NewBucket NewClient cfg s = (Inl e, s1)) \<and>
         (\<forall>s1. Ping c s = (None, s1) \<and> AppKey cfg = [] \<longrightarrow>
            NewBucket NewClient cfg s = (Inl (ErrNew ''please provide appkey''), s1)) \<and>
         (\<forall>s1. Ping c s = (None, s1) \<and> AppKey cfg \<noteq> [] \<longrightarrow>
            NewBucket NewClient cfg s =
              (Inr \<lparr>rdb = c, key = AppKey cfg, capacity = RequestLimit cfg, space = 0,
                    reset = 0, rate = LimitDuration cfg\<rparr>, s1))"
  using assms by (simp add: NewBucket_def)

theorem NewBucket_checks_witness:
  "NewBucket redis_NewClient defaultTestCfg ((fresh 0)\<lparr>down := True\<rparr>)
     = (Inl unreachable, (fresh 0)\<lparr>down := True\<rparr>) \<and>
   NewBucket redis_NewClient (defaultTestCfg\<lparr>AppKey := []\<rparr>) (fresh 0)
     = (Inl (ErrNew ''please provide appkey''), fresh 0) \<and>
   NewBucket redis_NewClient (defaultTestCfg\<lparr>RequestLimit := 0\<rparr>) (fresh 0)
     = (Inr \<lparr>rdb = redis_client, key = ''test-app-key'', capacity = 0, space = 0, reset = 0,
             rate = Second\<rparr>, fresh 0)"
proof -
  have p1: "Ping redis_client ((fresh 0)\<lparr>down := True\<rparr>)
              = (Some unreachable, (fresh 0)\<lparr>down := True\<rparr>)"
    by (simp add: redis_client_def redis_Ping_def fresh_def)
  have p2: "Ping redis_client (fresh 0) = (None, fresh 0)"
    by (simp add: redis_client_def redis_Ping_def fresh_def)
  show ?thesis
    using NewBucket_checks [of redis_client redis_NewClient defaultTestCfg
        "(fresh 0)\<lparr>down := True\<rparr>"]
      NewBucket_checks [of redis_client redis_NewClient "defaultTestCfg\<lparr>AppKey := []\<rparr>" "fresh 0"]
      NewBucket_checks [of redis_client redis_NewClient "defaultTestCfg\<lparr>RequestLimit := 0\<rparr>"
        "fresh 0"]
      p1 p2
    by (simp add: defaultTestCfg_def redis_NewClient_def)
qed

lemma NewBucket_test:
  "NewBucket redis_NewClient (defaultTestCfg\<lparr>RequestLimit := c\<rparr>) (fresh t) =
     (Inr (test_bucket c), fresh t)"
  by (simp add: NewBucket_def redis_NewClient_def redis_client_def redis_Ping_def fresh_def
      defaultTestCfg_def test_bucket_def)

section \<open>Properties of Consume on any store\<close>

text \<open>\<open>drain\<close> writes the reset time only.\<close>

lemma drain_tx_fields:
  "drain_tx now b s = (e, b1, s1) \<Longrightarrow>
     rdb b1 = rdb b \<and> key b1 = key b \<and> capacity b1 = capacity b \<and> space b1 = space b \<and>
     rate b1 = rate b"
  by (auto simp: drain_tx_def Let_def split: prod.splits if_splits option.splits)

lemma drain_fields:
  "drain now b s = (e, b1, s1) \<Longrightarrow>
     rdb b1 = rdb b \<and> key b1 = key b \<and> capacity b1 = capacity b \<and> space b1 = space b \<and>
     rate b1 = rate b"
  by (auto simp: drain_def Watch_def dest: drain_tx_fields split: prod.splits option.splits)

lemma Consume_tx_error:
  "fst (Consume_tx now amt b s) =
     (case Consume_get b s of
        (Inl e, s1) \<Rightarrow> Some e
      | (Inr n, s1) \<Rightarrow>
          if n \<ge> capacity b then Some ErrToManyRequests
          else if fst (Consume_incr b amt s1) > capacity b then Some ErrToManyRequests
          else None)"
  by (simp add: Consume_tx_def split: prod.splits sum.splits)

lemma Consume_error: "snd (fst (Consume now b amt s)) = Consume_outcome b amt s"
proof (cases "WatchCmd (rdb b) (key b) s")
  case (Pair e s1)
  show ?thesis
  proof (cases e)
    case None
    have "snd (fst (Consume now b amt s)) = fst (Consume_tx now amt b s1)"
      using Pair None by (simp add: Consume_def Watch_def split: prod.splits)
    also have "\<dots> = Consume_outcome b amt s"
      using Pair None by (simp add: Consume_outcome_def Consume_tx_error)
    finally show ?thesis .
  next
    case (Some e')
    then show ?thesis using Pair
      by (simp add: Consume_def Watch_def Consume_outcome_def)
  qed
qed

lemma Consume_get_PTTL: "Consume_get (b\<lparr>rdb := (rdb b)\<lparr>PTTL := p\<rparr>\<rparr>) s = Consume_get b s"
  by (simp add: Consume_get_def split: prod.splits sum.splits)

lemma Consume_incr_PTTL:
  "Consume_incr (b\<lparr>rdb := (rdb b)\<lparr>PTTL := p\<rparr>\<rparr>) amt s = Consume_incr b amt s"
  by (simp add: Consume_incr_def)

lemma Consume_outcome_PTTL:
  "Consume_outcome (b\<lparr>rdb := (rdb b)\<lparr>PTTL := p\<rparr>\<rparr>) amt s = Consume_outcome b amt s"
  unfolding Consume_outcome_def Consume_get_PTTL Consume_incr_PTTL
  by (simp split: prod.splits sum.splits option.splits)

text \<open>
  C9. The error that \<open>Consume\<close> returns (none, \<open>ErrToManyRequests\<close> or an error of the
  store) is the one decided by the watch, the read, the comparison, the increment and
  the overflow check alone (\<open>Consume_outcome\<close>, in which no step of \<open>drain\<close> occurs), on
  every store, for every amount and every clock. In particular it is the same whatever
  the \<open>PTTL\<close> of \<open>drain\<close> answers, an error included: what \<open>drain\<close> returns is dropped.
\<close>

theorem Consume_outcome_ignores_drain:
  "snd (fst (Consume now b amt s)) = Consume_outcome b amt s \<and>
   snd (fst (Consume now' (b\<lparr>rdb := (rdb b)\<lparr>PTTL := p\<rparr>\<rparr>) amt s)) =
     snd (fst (Consume now b amt s))"
  by (simp add: Consume_error Consume_outcome_PTTL)

text \<open>
  C5, amended. When the watch is placed, the counter is read as \<open>n\<close> below the capacity
  and the incremented counter \<open>count\<close> exceeds the capacity, \<open>Consume\<close> returns
  \<open>ErrToManyRequests\<close> with a state whose capacity is the Bucket's and whose space is the
  space the Bucket had cached before the call, unchanged; a response stamped from that
  state carries this cached space as its remaining header.
\<close>

theorem Consume_overflow_keeps_space:
  assumes "WatchCmd (rdb b) (key b) s = (None, s1)"
    and "Consume_get b s1 = (Inr n, s2)" and "n < capacity b"
    and "Consume_incr b amt s2 = (count, s3)" and "count > capacity b"
  shows "snd (fst (Consume now b amt s)) = Some ErrToManyRequests \<and>
         Space (fst (fst (Consume now b amt s))) = space b \<and>
         Capacity (fst (fst (Consume now b amt s))) = capacity b \<and>
         stamp (fst (fst (Consume now b amt s))) t h xRateLimitRemaining = Some [Itoa (space b)]"
proof -
  obtain e b1 s4 where d: "drain now b s3 = (e, b1, s4)"
    by (cases "drain now b s3") auto
  have "Consume now b amt s = ((state b1, Some ErrToManyRequests), b1, s4)"
    using assms d by (simp add: Consume_def Watch_def Consume_tx_def)
  moreover have "space b1 = space b" "capacity b1 = capacity b"
    using drain_fields [OF d] by simp_all
  ultimately show ?thesis
    by (simp add: state_def stamp_apply xRateLimitRemaining_def)
qed

section \<open>Consume on the reference store\<close>

lemmas redis_cmds = redis_client_def redis_Watch_def redis_Get_def redis_Set_def
  redis_IncrBy_def redis_PTTL_def

lemmas Consume_unfold = Consume_def Watch_def Consume_tx_def Consume_get_def Consume_incr_def
  drain_def drain_tx_def redis_cmds live_def val_of_def err_of_def state_def redis_now_def

theorem Consume_overflow_keeps_space_witness:
  "WatchCmd redis_client ''test-app-key'' (stored 2 1000) = (None, stored 2 1000) \<and>
   Consume_get ((test_bucket 3)\<lparr>space := 1\<rparr>) (stored 2 1000) = (Inr 2, stored 2 1000) \<and>
   Consume_incr ((test_bucket 3)\<lparr>space := 1\<rparr>) 2 (stored 2 1000) = (4, stored 4 1000) \<and>
   snd (fst (Consume redis_now ((test_bucket 3)\<lparr>space := 1\<rparr>) 2 (stored 2 1000)))
     = Some ErrToManyRequests \<and>
   Space (fst (fst (Consume redis_now ((test_bucket 3)\<lparr>space := 1\<rparr>) 2 (stored 2 1000)))) = 1 \<and>
   Capacity (fst (fst (Consume redis_now ((test_bucket 3)\<lparr>space := 1\<rparr>) 2 (stored 2 1000)))) = 3 \<and>
   stamp (fst (fst (Consume redis_now ((test_bucket 3)\<lparr>space := 1\<rparr>) 2 (stored 2 1000)))) 0
     Map.empty xRateLimitRemaining = Some [''1'']"
proof -
  let ?b = "(test_bucket 3)\<lparr>space := 1\<rparr>"
  have w: "WatchCmd (rdb ?b) (key ?b) (stored 2 1000) = (None, stored 2 1000)"
    by (simp add: test_bucket_def redis_cmds stored_def)
  have g: "Consume_get ?b (stored 2 1000) = (Inr 2, stored 2 1000)"
    by (simp add: Consume_get_def test_bucket_def redis_cmds stored_def live_def)
  have i: "Consume_incr ?b 2 (stored 2 1000) = (4, stored 4 1000)"
    by (simp add: Consume_incr_def test_bucket_def redis_cmds stored_def live_def val_of_def)
  have c: "(2::int) < capacity ?b" "(4::int) > capacity ?b"
    by (simp_all add: test_bucket_def)
  show ?thesis
    using Consume_overflow_keeps_space [OF w g c(1) i c(2), of redis_now 0 Map.empty] w g i
    by (simp add: test_bucket_def Itoa_small)
qed

text \<open>
  C5, as the claim states it, fails: on a fresh store, a Bucket of capacity 3 accepts a
  first \<open>Consume(2)\<close> and caches the space 1; the second \<open>Consume(2)\<close> increments the
  counter to 4, above the capacity, and returns \<open>ErrToManyRequests\<close> with the space 1,
  not 0.
\<close>

theorem Consume_overflow_stale_space:
  "(case Consume redis_now (test_bucket 3) 2 (fresh 0) of
      (r1, b1, s1) \<Rightarrow>
        (case Consume redis_now b1 2 s1 of
           (r2, b2, s2) \<Rightarrow>
             (snd r1, Space (fst r1), snd r2, Space (fst r2),
              map_option fst (entries s2 ''test-app-key''))))
   = (None, 1, Some ErrToManyRequests, 1, Some 4)"
  by (simp add: Consume_unfold test_bucket_def fresh_def Second_def ttl_ms_def Millisecond_def)

text \<open>
  The same with \<open>Consume(1)\<close> only and no overflow: two Buckets of capacity 2 (two
  replicas) share the key. The first accepts one call and caches the space 1, the second
  accepts one call, and the first then rejects its next call with the space 1; the
  remaining header stamped from that state reads 1.
\<close>

lemma two_replicas_stale_space:
  "(case Consume redis_now (test_bucket 2) 1 (fresh 0) of
      (rA1, bA, s1) \<Rightarrow>
        (case Consume redis_now (test_bucket 2) 1 s1 of
           (rB1, bB, s2) \<Rightarrow>
             (case Consume redis_now bA 1 s2 of
                (rA2, bA', s3) \<Rightarrow>
                  (snd rA1, snd rB1, snd rA2, Space (fst rA2),
                   stamp (fst rA2) (redis_now s3) Map.empty xRateLimitRemaining))))
   = (None, None, Some ErrToManyRequests, 1, Some [''1''])"
  by (simp add: Consume_unfold test_bucket_def fresh_def Second_def ttl_ms_def Millisecond_def
      stamp_apply xRateLimitRemaining_def Itoa_small)

text \<open>
  An error of \<open>drain\<close> is not an error of \<open>Consume\<close>: with a \<open>PTTL\<close> that fails, \<open>drain\<close>
  returns the store's error and the \<open>Consume\<close> around it succeeds.
\<close>

lemma drain_error_not_returned:
  "fst (drain redis_now ((test_bucket 2)\<lparr>rdb := no_pttl\<rparr>) (fresh 0)) = Some unreachable \<and>
   snd (fst (Consume redis_now ((test_bucket 2)\<lparr>rdb := no_pttl\<rparr>) 1 (fresh 0))) = None"
  by (simp add: Consume_unfold test_bucket_def fresh_def Second_def ttl_ms_def Millisecond_def
      no_pttl_def unreachable_def)

text \<open>
  One call of \<open>Consume\<close> on the reference store while it is up: on an absent (or expired)
  key, on a live counter below the capacity, and on a live counter at or above it.
\<close>

lemma ttl_ms_pos [simp]: "0 < ttl_ms d" "\<not> ttl_ms d < 1"
  by (simp_all add: ttl_ms_def)

lemma sleep_0 [simp]: "sleep 0 s = s"
  by (simp add: sleep_def)

lemma Consume_absent:
  assumes "rdb b = redis_client" and "\<not> down s" and "live s (key b) = None"
    and "0 < rate b" and "1 \<le> capacity b"
  shows "Consume redis_now b 1 s =
           ((\<lparr>Capacity = capacity b, Space = capacity b - 1,
              Reset = Add (redis_now s) (wrap64 (ttl_ms (rate b) * Millisecond))\<rparr>, None),
            b\<lparr>space := capacity b - 1,
              reset := Add (redis_now s) (wrap64 (ttl_ms (rate b) * Millisecond))\<rparr>,
            s\<lparr>entries := (entries s)(key b \<mapsto> (1, Some (clock s + ttl_ms (rate b))))\<rparr>)"
  using assms by (simp add: Consume_unfold)

lemma Consume_absent_reject:
  assumes "rdb b = redis_client" and "\<not> down s" and "live s (key b) = None"
    and "0 < rate b" and "capacity b \<le> 0"
  shows "Consume redis_now b amt s =
           ((\<lparr>Capacity = capacity b, Space = space b,
              Reset = Add (redis_now s) (wrap64 (ttl_ms (rate b) * Millisecond))\<rparr>,
             Some ErrToManyRequests),
            b\<lparr>reset := Add (redis_now s) (wrap64 (ttl_ms (rate b) * Millisecond))\<rparr>,
            s\<lparr>entries := (entries s)(key b \<mapsto> (0, Some (clock s + ttl_ms (rate b))))\<rparr>)"
  using assms by (simp add: Consume_unfold)

lemma Consume_live_accept:
  assumes "rdb b = redis_client" and "\<not> down s"
    and "entries s (key b) = Some (v, Some t)" and "clock s < t" and "v < capacity b"
  shows "Consume redis_now b 1 s =
           ((\<lparr>Capacity = capacity b, Space = capacity b - (v + 1),
              Reset = Add (redis_now s) (wrap64 ((t - clock s) * Millisecond))\<rparr>, None),
            b\<lparr>space := capacity b - (v + 1),
              reset := Add (redis_now s) (wrap64 ((t - clock s) * Millisecond))\<rparr>,
            s\<lparr>entries := (entries s)(key b \<mapsto> (v + 1, Some t))\<rparr>)"
  using assms by (simp add: Consume_unfold)

lemma Consume_live_reject:
  assumes "rdb b = redis_client" and "\<not> down s"
    and "entries s (key b) = Some (v, Some t)" and "clock s < t" and "capacity b \<le> v"
  shows "Consume redis_now b amt s =
           ((\<lparr>Capacity = capacity b, Space = space b,
              Reset = Add (redis_now s) (wrap64 ((t - clock s) * Millisecond))\<rparr>,
             Some ErrToManyRequests),
            b\<lparr>reset := Add (redis_now s) (wrap64 ((t - clock s) * Millisecond))\<rparr>, s)"
  using assms by (simp add: Consume_unfold)

text \<open>
  C2. Scenario A. \<open>NewBucket\<close> with the configuration of the test (capacity 2, window one
  second) on a fresh store at any time \<open>t0\<close> makes the Bucket \<open>test_bucket 2\<close>. Three
  sequential \<open>Consume(1)\<close> calls inside the window (after \<open>d1\<close> and \<open>d2\<close> more
  milliseconds, less than 1000 together) return success with space 1, success with
  space 0, and \<open>ErrToManyRequests\<close> with space 0; a fourth call once more than 1000
  milliseconds have passed since the first returns success with space 1.
\<close>

theorem scenario_A:
  assumes "0 \<le> d1" and "0 \<le> d2" and "d1 + d2 < 1000" and "1000 < d1 + d2 + d3"
  shows "NewBucket redis_NewClient defaultTestCfg (fresh t0) = (Inr (test_bucket 2), fresh t0) \<and>
         map (\<lambda>r. (snd r, Space (fst r))) (Consume_seq (test_bucket 2) (fresh t0) [0, d1, d2, d3]) =
           [(None, 1), (None, 0), (Some ErrToManyRequests, 0), (None, 1)]"
proof -
  let ?k = "''test-app-key''"
  let ?b = "test_bucket 2"
  have nb: "NewBucket redis_NewClient defaultTestCfg (fresh t0) = (Inr ?b, fresh t0)"
    using NewBucket_test [of 2 t0] by (simp add: defaultTestCfg_def)
  have ttl: "ttl_ms Second = 1000"
    by (simp add: ttl_ms_def Second_def Millisecond_def)
  obtain r1 b1 s1 where c1: "Consume redis_now ?b 1 (sleep 0 (fresh t0)) = (r1, b1, s1)"
    by (cases "Consume redis_now ?b 1 (sleep 0 (fresh t0))") auto
  have p1: "snd r1 = None" "Space (fst r1) = 1" "rdb b1 = redis_client" "key b1 = ?k"
    "capacity b1 = 2" "rate b1 = Second" "\<not> down s1" "clock s1 = t0"
    "entries s1 ?k = Some (1, Some (t0 + 1000))"
    using c1 Consume_absent [of ?b "sleep 0 (fresh t0)"]
    by (auto simp: test_bucket_def sleep_def fresh_def live_def Second_def ttl [unfolded Second_def])
  obtain r2 b2 s2 where c2: "Consume redis_now b1 1 (sleep d1 s1) = (r2, b2, s2)"
    by (cases "Consume redis_now b1 1 (sleep d1 s1)") auto
  have p2: "snd r2 = None" "Space (fst r2) = 0" "rdb b2 = redis_client" "key b2 = ?k"
    "capacity b2 = 2" "rate b2 = Second" "\<not> down s2" "clock s2 = t0 + d1" "space b2 = 0"
    "entries s2 ?k = Some (2, Some (t0 + 1000))"
    using c2 p1 assms Consume_live_accept [of b1 "sleep d1 s1" 1 "t0 + 1000"]
    by (auto simp: sleep_def)
  obtain r3 b3 s3 where c3: "Consume redis_now b2 1 (sleep d2 s2) = (r3, b3, s3)"
    by (cases "Consume redis_now b2 1 (sleep d2 s2)") auto
  have p3: "snd r3 = Some ErrToManyRequests" "Space (fst r3) = 0" "rdb b3 = redis_client"
    "key b3 = ?k" "capacity b3 = 2" "rate b3 = Second" "\<not> down s3" "clock s3 = t0 + d1 + d2"
    "entries s3 ?k = Some (2, Some (t0 + 1000))"
    using c3 p2 assms Consume_live_reject [of b2 "sleep d2 s2" 2 "t0 + 1000" 1]
    by (auto simp: sleep_def)
  obtain r4 b4 s4 where c4: "Consume redis_now b3 1 (sleep d3 s3) = (r4, b4, s4)"
    by (cases "Consume redis_now b3 1 (sleep d3 s3)") auto
  have p4: "snd r4 = None" "Space (fst r4) = 1"
    using c4 p3 assms Consume_absent [of b3 "sleep d3 s3"]
    by (auto simp: sleep_def live_def Second_def)
  show ?thesis
    using nb c1 c2 c3 c4 p1(1,2) p2(1,2) p3(1,2) p4 by simp
qed


theorem scenario_A_witness:
  "(0::int) \<le> 10 \<and> (10::int) + 10 < 1000 \<and> (1000::int) < 10 + 10 + 1001 \<and>
   NewBucket redis_NewClient defaultTestCfg (fresh 0) = (Inr (test_bucket 2), fresh 0) \<and>
   map (\<lambda>r. (snd r, Space (fst r))) (Consume_seq (test_bucket 2) (fresh 0) [0, 10, 10, 1001]) =
     [(None, 1), (None, 0), (Some ErrToManyRequests, 0), (None, 1)]"
  using scenario_A [of 10 10 1001 0] by simp

text \<open>
  Sequential calls inside one window: of \<open>n\<close> back-to-back \<open>Consume(1)\<close> calls of one
  Bucket on a fresh key, the first \<open>capacity\<close> succeed and all later ones return
  \<open>ErrToManyRequests\<close>.
\<close>

lemma Consume_seq_live:
  assumes "rdb b = redis_client" and "\<not> down s"
    and "entries s (key b) = Some (v, Some t)" and "clock s < t" and "v \<le> capacity b"
  shows "map snd (Consume_seq b s (replicate n 0)) =
           replicate (min n (nat (capacity b - v))) None @
           replicate (n - nat (capacity b - v)) (Some ErrToManyRequests)"
  using assms
proof (induction n arbitrary: b s v)
  case 0
  then show ?case by simp
next
  case (Suc n)
  show ?case
  proof (cases "v < capacity b")
    case True
    let ?R = "Add (redis_now s) (wrap64 ((t - clock s) * Millisecond))"
    let ?b1 = "b\<lparr>space := capacity b - (v + 1), reset := ?R\<rparr>"
    let ?s1 = "s\<lparr>entries := (entries s)(key b \<mapsto> (v + 1, Some t))\<rparr>"
    have step: "Consume redis_now b 1 s =
        ((\<lparr>Capacity = capacity b, Space = capacity b - (v + 1), Reset = ?R\<rparr>, None), ?b1, ?s1)"
      using Suc.prems True by (intro Consume_live_accept) auto
    have ih: "map snd (Consume_seq ?b1 ?s1 (replicate n 0)) =
           replicate (min n (nat (capacity ?b1 - (v + 1)))) None @
           replicate (n - nat (capacity ?b1 - (v + 1))) (Some ErrToManyRequests)"
      using Suc.prems True by (intro Suc.IH) auto
    have m: "nat (capacity b - v) = Suc (nat (capacity b - (v + 1)))"
      using True by simp
    show ?thesis
      using step ih by (simp add: m)
  next
    case False
    let ?R = "Add (redis_now s) (wrap64 ((t - clock s) * Millisecond))"
    let ?b1 = "b\<lparr>reset := ?R\<rparr>"
    have step: "Consume redis_now b 1 s =
        ((\<lparr>Capacity = capacity b, Space = space b, Reset = ?R\<rparr>, Some ErrToManyRequests), ?b1, s)"
      using Suc.prems False by (intro Consume_live_reject) auto
    have ih: "map snd (Consume_seq ?b1 s (replicate n 0)) =
           replicate (min n (nat (capacity ?b1 - v))) None @
           replicate (n - nat (capacity ?b1 - v)) (Some ErrToManyRequests)"
      using Suc.prems by (intro Suc.IH) auto
    have m: "nat (capacity b - v) = 0"
      using False by simp
    show ?thesis
      using step ih by (simp add: m)
  qed
qed

lemma Consume_seq_fresh:
  assumes "rdb b = redis_client" and "\<not> down s" and "live s (key b) = None"
    and "0 < rate b" and "0 \<le> capacity b"
  shows "map snd (Consume_seq b s (replicate n 0)) =
           replicate (min n (nat (capacity b))) None @
           replicate (n - nat (capacity b)) (Some ErrToManyRequests)"
proof (cases n)
  case 0
  then show ?thesis by simp
next
  case (Suc m)
  let ?t = "clock s + ttl_ms (rate b)"
  let ?R = "Add (redis_now s) (wrap64 (ttl_ms (rate b) * Millisecond))"
  show ?thesis
  proof (cases "1 \<le> capacity b")
    case True
    let ?b1 = "b\<lparr>space := capacity b - 1, reset := ?R\<rparr>"
    let ?s1 = "s\<lparr>entries := (entries s)(key b \<mapsto> (1, Some ?t))\<rparr>"
    have step: "Consume redis_now b 1 s =
        ((\<lparr>Capacity = capacity b, Space = capacity b - 1, Reset = ?R\<rparr>, None), ?b1, ?s1)"
      using assms True by (intro Consume_absent) auto
    have rest: "map snd (Consume_seq ?b1 ?s1 (replicate m 0)) =
           replicate (min m (nat (capacity ?b1 - 1))) None @
           replicate (m - nat (capacity ?b1 - 1)) (Some ErrToManyRequests)"
      using assms True by (intro Consume_seq_live [where t = ?t]) auto
    have c: "nat (capacity b) = Suc (nat (capacity b - 1))"
      using True by simp
    show ?thesis
      using step rest Suc by (simp add: c)
  next
    case False
    let ?b1 = "b\<lparr>reset := ?R\<rparr>"
    let ?s1 = "s\<lparr>entries := (entries s)(key b \<mapsto> (0, Some ?t))\<rparr>"
    have step: "Consume redis_now b 1 s =
        ((\<lparr>Capacity = capacity b, Space = space b, Reset = ?R\<rparr>, Some ErrToManyRequests),
         ?b1, ?s1)"
      using assms False by (intro Consume_absent_reject) auto
    have rest: "map snd (Consume_seq ?b1 ?s1 (replicate m 0)) =
           replicate (min m (nat (capacity ?b1 - 0))) None @
           replicate (m - nat (capacity ?b1 - 0)) (Some ErrToManyRequests)"
      using assms False by (intro Consume_seq_live [where t = ?t]) auto
    have c: "capacity b = 0"
      using assms False by simp
    show ?thesis
      using step rest Suc by (simp add: c)
  qed
qed


end
